theory Spec2Isabelle
  imports Complex_Main
begin

section \<open>Tesla ESG sentiment pipeline: the model\<close>

text \<open>
  A shallow embedding of \<^verbatim>\<open>tesla_esg_analysis.py\<close> (class
  \<^verbatim>\<open>TeslaESGSentimentAnalyzer\<close>). A Python \<^verbatim>\<open>str\<close> is a
  \<^typ>\<open>string\<close> of Latin-1 code points; a Python \<^verbatim>\<open>int\<close> is an
  \<^typ>\<open>int\<close> or a \<^typ>\<open>nat\<close>; a double is NaN (pandas' marker of a
  missing number), one of the two infinities, or a number, given as the
  \<^typ>\<open>real\<close> it denotes. Comparisons and absolute values of doubles are exact and
  are modelled; the operations that round (the mean of a series, subtraction, the
  percentage) and the library's parsers and sort are parameters of the model, so that
  what is proved holds of IEEE arithmetic as of any other. Plotting, logging layout,
  SQLite and CSV output are not modelled, and neither are the columns that no modelled
  statement reads.
\<close>

subsection \<open>Strings\<close>

text \<open>\<^verbatim>\<open>s.split(sep)\<close> for a one-character separator: never an empty list.\<close>

fun split_on :: "char \<Rightarrow> string \<Rightarrow> string list" where
  "split_on sep [] = [[]]"
| "split_on sep (c # cs) =
     (if c = sep then [] # split_on sep cs
      else (case split_on sep cs of
              [] \<Rightarrow> [[c]]
            | p # ps \<Rightarrow> (c # p) # ps))"

text \<open>
  \<^verbatim>\<open>str.isspace\<close> on one Latin-1 character: TAB, LF, VT, FF, CR, the four
  separators 28 to 31, the space, NEL (133) and the no-break space (160).
\<close>

definition py_isspace :: "char \<Rightarrow> bool" where
  "py_isspace c =
     (let n = (of_char c :: nat)
      in (9 \<le> n \<and> n \<le> 13) \<or> (28 \<le> n \<and> n \<le> 32) \<or> n = 133 \<or> n = 160)"

definition strip :: "string \<Rightarrow> string" where
  "strip s = rev (dropWhile py_isspace (rev (dropWhile py_isspace s)))"

text \<open>\<^verbatim>\<open>s.startswith(k)\<close> and the substring test \<^verbatim>\<open>k in s\<close>.\<close>

fun starts_with :: "string \<Rightarrow> string \<Rightarrow> bool" where
  "starts_with s [] = True"
| "starts_with [] (k # ks) = False"
| "starts_with (c # cs) (k # ks) = (c = k \<and> starts_with cs ks)"

fun py_in :: "string \<Rightarrow> string \<Rightarrow> bool" where
  "py_in k [] = (k = [])"
| "py_in k (c # cs) = (starts_with (c # cs) k \<or> py_in k cs)"

subsection \<open>Theme extraction and ESG categorisation\<close>

text \<open>
  \<^verbatim>\<open>_extract_themes\<close>: a cell of the \<^verbatim>\<open>V2Themes\<close> column is a text or
  null (\<open>None\<close>, for which \<^verbatim>\<open>pd.isna\<close> holds).
\<close>

definition extract_themes :: "string option \<Rightarrow> string list" where
  "extract_themes theme_string =
     (case theme_string of
        None \<Rightarrow> []
      | Some s \<Rightarrow> map strip (filter (\<lambda>theme. strip theme \<noteq> []) (split_on CHR '';'' s)))"

datatype category = Environmental | Social | Governance | Economic | Technology | Political

text \<open>The keyword table of \<^verbatim>\<open>_categorize_esg_themes\<close>, in the dict's insertion order.\<close>

definition esg_categories_map :: "(category \<times> string list) list" where
  "esg_categories_map =
     [(Environmental,
         [''WB_1331_HEALTH_TECHNOLOGIES'', ''UNGP_FORESTS_RIVERS_OCEANS'', ''NATURAL_DISASTER'',
          ''TAX_ETHNICITY_CHINESE'', ''TAX_WORLDLANGUAGES_CHINESE'']),
      (Social,
         [''WB_615_GENDER'', ''WB_924_VOICE_AND_AGENCY'', ''WB_621_HEALTH_NUTRITION_AND_POPULATION'',
          ''GENERAL_HEALTH'', ''MEDICAL'', ''TAX_DISEASE'', ''WB_926_POLITICAL_PARTICIPATION'']),
      (Governance,
         [''WB_831_GOVERNANCE'', ''WB_832_ANTI_CORRUPTION'', ''WB_2019_ANTI_CORRUPTION_LEGISLATION'',
          ''WB_2020_BRIBERY_FRAUD_AND_COLLUSION'', ''CORRUPTION'', ''LEGISLATION'', ''EPU_POLICY'',
          ''WB_845_LEGAL_AND_REGULATORY_FRAMEWORK'', ''WB_696_PUBLIC_SECTOR_MANAGEMENT'',
          ''WB_969_CAPITAL_MARKETS_LAW_AND_REGULATION'', ''TAX_FNCACT_EXECUTIVES'']),
      (Economic, [''ECON_STOCKMARKET'', ''TAX_ECON_PRICE'', ''WB_698_TRADE'']),
      (Technology,
         [''WB_678_DIGITAL_GOVERNMENT'', ''WB_694_BROADCAST_AND_MEDIA'',
          ''WB_133_INFORMATION_AND_COMMUNICATION_TECHNOLOGIES'', ''SOC_EMERGINGTECH'',
          ''WB_652_ICT_APPLICATIONS'', ''WB_662_SOCIAL_MEDIA'']),
      (Political,
         [''USPEC_POLITICS_GENERAL1'', ''TAX_POLITICAL_PARTY'', ''ELECTION'',
          ''TAX_FNCACT_PRESIDENT''])]"

text \<open>
  A dict from the six category names to counts, every key present from its creation on:
  a total function. \<open>zero_counts\<close> is \<^verbatim>\<open>{cat: 0 for cat in ...}\<close>.
\<close>

type_synonym counts = "category \<Rightarrow> nat"

definition zero_counts :: counts where
  "zero_counts = (\<lambda>cat. 0)"

text \<open>
  The inner loop \<^verbatim>\<open>for category, keywords in esg_categories_map.items()\<close> with its
  \<^verbatim>\<open>break\<close>: the first category with a keyword inside the theme is incremented and
  the rest of the table is not looked at.
\<close>

fun scan_categories :: "(category \<times> string list) list \<Rightarrow> string \<Rightarrow> counts \<Rightarrow> counts" where
  "scan_categories [] theme categorized_counts = categorized_counts"
| "scan_categories ((cat, keywords) # rest) theme categorized_counts =
     (if list_ex (\<lambda>keyword. py_in keyword theme) keywords
      then categorized_counts(cat := categorized_counts cat + 1)
      else scan_categories rest theme categorized_counts)"

text \<open>The outer loop \<^verbatim>\<open>for theme in themes\<close>.\<close>

fun categorize_loop :: "string list \<Rightarrow> counts \<Rightarrow> counts" where
  "categorize_loop [] categorized_counts = categorized_counts"
| "categorize_loop (theme # themes) categorized_counts =
     categorize_loop themes (scan_categories esg_categories_map theme categorized_counts)"

definition categorize_esg_themes :: "string list \<Rightarrow> counts" where
  "categorize_esg_themes themes = categorize_loop themes zero_counts"

text \<open>
  The specification's wording of the rule, to compare the loops with: the category a
  token belongs to is the first one, in declared order, that has a keyword inside it.
\<close>

definition declared_order :: "category list" where
  "declared_order = [Environmental, Social, Governance, Economic, Technology, Political]"

definition first_match :: "string \<Rightarrow> category option" where
  "first_match theme =
     map_option fst
       (find (\<lambda>entry. list_ex (\<lambda>keyword. py_in keyword theme) (snd entry)) esg_categories_map)"

definition tokens_of :: "category \<Rightarrow> string list \<Rightarrow> string list" where
  "tokens_of cat themes = filter (\<lambda>theme. first_match theme = Some cat) themes"

subsection \<open>Doubles\<close>

text \<open>
  A double, and its exact operations: the comparisons (false whenever NaN takes part) and
  the absolute value.
\<close>

datatype pyfloat = NaN | NInf | Fin real | PInf

fun fl_lt :: "pyfloat \<Rightarrow> pyfloat \<Rightarrow> bool" where
  "fl_lt (Fin a) (Fin b) = (a < b)"
| "fl_lt NInf (Fin b) = True"
| "fl_lt NInf PInf = True"
| "fl_lt (Fin a) PInf = True"
| "fl_lt a b = False"

definition fl_gt :: "pyfloat \<Rightarrow> pyfloat \<Rightarrow> bool" where
  "fl_gt a b = fl_lt b a"

definition fl_le :: "pyfloat \<Rightarrow> pyfloat \<Rightarrow> bool" where
  "fl_le a b = (a \<noteq> NaN \<and> b \<noteq> NaN \<and> \<not> fl_lt b a)"

fun fl_abs :: "pyfloat \<Rightarrow> pyfloat" where
  "fl_abs (Fin a) = Fin \<bar>a\<bar>"
| "fl_abs NInf = PInf"
| "fl_abs PInf = PInf"
| "fl_abs NaN = NaN"

text \<open>
  The operations that round are taken as they come from numpy and pandas:
  \<^verbatim>\<open>Series.mean()\<close> of a column of doubles, the difference \<^verbatim>\<open>a - b\<close> of two
  doubles, and \<^verbatim>\<open>count / total * 100\<close> of two counts.
\<close>

record np_ops =
  np_mean :: "pyfloat list \<Rightarrow> pyfloat"
  np_sub :: "pyfloat \<Rightarrow> pyfloat \<Rightarrow> pyfloat"
  np_percent :: "nat \<Rightarrow> nat \<Rightarrow> pyfloat"

text \<open>
  The mean in the ordinary sense, and operations without rounding: what the doubles'
  operations give wherever their exact result is a double, as on the sample data below.
\<close>

definition arithmetic_mean :: "real list \<Rightarrow> real" where
  "arithmetic_mean xs = sum_list xs / real (length xs)"

definition numbers_of :: "pyfloat list \<Rightarrow> real list" where
  "numbers_of xs = List.map_filter (\<lambda>v. case v of Fin x \<Rightarrow> Some x | other \<Rightarrow> None) xs"

definition exact_mean :: "pyfloat list \<Rightarrow> pyfloat" where
  "exact_mean xs =
     (if xs = [] \<or> length (numbers_of xs) < length xs then NaN
      else Fin (arithmetic_mean (numbers_of xs)))"

fun exact_sub :: "pyfloat \<Rightarrow> pyfloat \<Rightarrow> pyfloat" where
  "exact_sub (Fin a) (Fin b) = Fin (a - b)"
| "exact_sub a b = NaN"

definition exact_percent :: "nat \<Rightarrow> nat \<Rightarrow> pyfloat" where
  "exact_percent cnt total_articles =
     (if total_articles = 0 then NaN else Fin (real cnt / real total_articles * 100))"

definition exact_ops :: np_ops where
  "exact_ops = \<lparr>np_mean = exact_mean, np_sub = exact_sub, np_percent = exact_percent\<rparr>"

subsection \<open>Tone parsing\<close>

text \<open>
  A cell of the \<^verbatim>\<open>V2Tone\<close> column, by the annotation \<^verbatim>\<open>str | float\<close> of
  \<^verbatim>\<open>_extract_sentiment\<close>, is null, a Python number or a text.
\<close>

datatype tone_input = PyNone | PyFloat pyfloat | PyStr string

datatype py_error = ValueError | IndexError | KeyError | AttributeError

text \<open>\<^verbatim>\<open>pd.isna\<close>: null and NaN are missing, an infinity is not.\<close>

definition pd_isna :: "tone_input \<Rightarrow> bool" where
  "pd_isna v =
     (case v of
        PyNone \<Rightarrow> True
      | PyFloat x \<Rightarrow> (case x of NaN \<Rightarrow> True | other \<Rightarrow> False)
      | PyStr s \<Rightarrow> False)"

text \<open>\<^verbatim>\<open>xs[0]\<close> raises IndexError on an empty list.\<close>

definition item0 :: "'a list \<Rightarrow> py_error + 'a" where
  "item0 xs = (case xs of [] \<Rightarrow> Inl IndexError | x # rest \<Rightarrow> Inr x)"

text \<open>
  The built-in \<^verbatim>\<open>float\<close> on a text is a parameter \<open>py_float\<close> of the model:
  \<open>None\<close> where it raises ValueError, its value otherwise (which is NaN for texts such
  as \<^verbatim>\<open>nan\<close> and an infinity for texts such as \<^verbatim>\<open>-inf\<close>).
  \<open>try_first_field\<close> is the body of the \<^verbatim>\<open>try\<close>,
  and \<open>extract_sentiment\<close> adds the two tests before it and the handler of
  \<^verbatim>\<open>except (ValueError, IndexError)\<close>, which lets any other exception pass.
  \<^verbatim>\<open>str(None)\<close> is the text \<^verbatim>\<open>None\<close>; that case is never reached, null
  having been answered by the first test.
\<close>

definition try_first_field :: "(string \<Rightarrow> pyfloat option) \<Rightarrow> string \<Rightarrow> py_error + pyfloat" where
  "try_first_field py_float s =
     (let parts = split_on CHR '','' s
      in case item0 parts of
           Inl e \<Rightarrow> Inl e
         | Inr p \<Rightarrow>
             (if p \<noteq> []
              then (case py_float p of None \<Rightarrow> Inl ValueError | Some v \<Rightarrow> Inr v)
              else Inr NaN))"

definition extract_sentiment :: "(string \<Rightarrow> pyfloat option) \<Rightarrow> tone_input \<Rightarrow> py_error + pyfloat" where
  "extract_sentiment py_float tone_str =
     (if pd_isna tone_str then Inr NaN
      else (case tone_str of
              PyFloat x \<Rightarrow> Inr x
            | other \<Rightarrow>
                (case try_first_field py_float
                        (case other of PyStr s \<Rightarrow> s | unreachable \<Rightarrow> ''None'') of
                   Inl ValueError \<Rightarrow> Inr NaN
                 | Inl IndexError \<Rightarrow> Inr NaN
                 | Inl e \<Rightarrow> Inl e
                 | Inr v \<Rightarrow> Inr v)))"

text \<open>
  The specification's words for the text case: the first field is what stands before the
  first comma, and it is numeric when \<^verbatim>\<open>float\<close> makes a number of it.
\<close>

definition first_field :: "string \<Rightarrow> string" where
  "first_field s = takeWhile (\<lambda>c. c \<noteq> CHR '','') s"

definition numeric :: "(string \<Rightarrow> pyfloat option) \<Rightarrow> string \<Rightarrow> bool" where
  "numeric py_float field =
     (case py_float field of
        None \<Rightarrow> False
      | Some v \<Rightarrow> (case v of NaN \<Rightarrow> False | other \<Rightarrow> True))"

subsection \<open>Record cleaning\<close>

text \<open>
  The raw frame, by column. The \<^verbatim>\<open>SQLDATE\<close> column is absent, of dtype int64
  with its values, or of another dtype (whose values the code never reads). A date is a
  day number, counted from 1970-01-01, or NaT (\<open>None\<close>).
\<close>

datatype sqldate_column = Absent | Int64 "int list" | OtherDtype

record raw_frame =
  SQLDATE :: sqldate_column
  V2Themes_col :: "string option list"
  V2Tone_col :: "tone_input list"

definition frame_len :: "raw_frame \<Rightarrow> nat" where
  "frame_len df = length (V2Tone_col df)"

text \<open>The columns of one frame have one length.\<close>

definition wf_frame :: "raw_frame \<Rightarrow> bool" where
  "wf_frame df =
     (length (V2Themes_col df) = frame_len df \<and>
      (case SQLDATE df of Int64 xs \<Rightarrow> length xs = frame_len df | other \<Rightarrow> True))"

text \<open>\<^verbatim>\<open>str(n)\<close> of an integer: its decimal digits, after a minus sign when negative.\<close>

fun nat_digits :: "nat \<Rightarrow> string" where
  "nat_digits n =
     (if n < 10 then [char_of (48 + n)]
      else nat_digits (n div 10) @ [char_of (48 + n mod 10)])"

declare nat_digits.simps [simp del]

definition str_int :: "int \<Rightarrow> string" where
  "str_int i = (if i < 0 then CHR ''-'' # nat_digits (nat (- i)) else nat_digits (nat i))"

text \<open>The number of decimal digits of an integer, the sign not counted.\<close>

definition digit_count :: "int \<Rightarrow> nat" where
  "digit_count i = length (nat_digits (nat \<bar>i\<bar>))"

text \<open>
  The test of line 199:
  \<^verbatim>\<open>'SQLDATE' in columns and dtype == 'int64' and len(str(iloc[0])) == 8\<close>;
  \<^verbatim>\<open>iloc[0]\<close> raises IndexError on a frame with no row.
\<close>

definition sqldate_is_yyyymmdd :: "raw_frame \<Rightarrow> py_error + bool" where
  "sqldate_is_yyyymmdd df =
     (case SQLDATE df of
        Absent \<Rightarrow> Inr False
      | OtherDtype \<Rightarrow> Inr False
      | Int64 xs \<Rightarrow>
          (case item0 xs of
             Inl e \<Rightarrow> Inl e
           | Inr x \<Rightarrow> Inr (length (str_int x) = 8)))"

text \<open>2024-07-01 is day 19905 after 1970-01-01.\<close>

definition base_date :: int where
  "base_date = 19905"

definition sequential_dates :: "nat \<Rightarrow> int option list" where
  "sequential_dates n = map (\<lambda>i. Some (base_date + int i)) [0..<n]"

text \<open>
  \<open>to_datetime\<close>, a parameter, is what
  \<^verbatim>\<open>pd.to_datetime(..., format='%Y%m%d', errors='coerce')\<close> makes of one integer:
  a date, or NaT where it does not parse. \<open>try_parse_dates\<close> is the body of the
  \<^verbatim>\<open>try\<close>, and \<open>parse_date_column\<close> adds the handler of
  \<^verbatim>\<open>except Exception\<close>. (Reading the column where there is none would raise
  KeyError; the test holds for an int64 column only, so this is never reached.)
\<close>

definition try_parse_dates :: "(int \<Rightarrow> int option) \<Rightarrow> raw_frame \<Rightarrow> py_error + int option list" where
  "try_parse_dates to_datetime df =
     (case sqldate_is_yyyymmdd df of
        Inl e \<Rightarrow> Inl e
      | Inr ok \<Rightarrow>
          (if ok
           then (case SQLDATE df of
                   Int64 xs \<Rightarrow> Inr (map to_datetime xs)
                 | other \<Rightarrow> Inl KeyError)
           else Inr (sequential_dates (frame_len df))))"

definition parse_date_column :: "(int \<Rightarrow> int option) \<Rightarrow> raw_frame \<Rightarrow> int option list" where
  "parse_date_column to_datetime df =
     (case try_parse_dates to_datetime df of
        Inl e \<Rightarrow> sequential_dates (frame_len df)
      | Inr dates \<Rightarrow> dates)"

text \<open>\<^verbatim>\<open>Series.apply\<close>: the function on every cell, stopping at the first exception.\<close>

fun series_apply :: "('a \<Rightarrow> py_error + 'b) \<Rightarrow> 'a list \<Rightarrow> py_error + 'b list" where
  "series_apply f [] = Inr []"
| "series_apply f (x # xs) =
     (case f x of
        Inl e \<Rightarrow> Inl e
      | Inr y \<Rightarrow> (case series_apply f xs of Inl e \<Rightarrow> Inl e | Inr ys \<Rightarrow> Inr (y # ys)))"

text \<open>
  \<^verbatim>\<open>pd.cut(x, bins, labels, right=True)\<close>: a missing \<open>x\<close> gets no label;
  otherwise \<^verbatim>\<open>searchsorted(bins, x, side='left')\<close> counts the edges below \<open>x\<close>,
  and a count of zero or of all edges gives no label either. (pandas refuses a list of
  labels that is not one shorter than the bins; the model gives no label there.)
\<close>

definition pd_cut :: "pyfloat list \<Rightarrow> 'l list \<Rightarrow> pyfloat \<Rightarrow> 'l option" where
  "pd_cut bins labels x =
     (let ids = length (takeWhile (\<lambda>edge. fl_lt edge x) bins)
      in if x = NaN \<or> ids = 0 \<or> ids = length bins \<or> length labels < ids then None
         else Some (labels ! (ids - 1)))"

datatype sentiment_label = Very_Negative | Negative | Positive | Very_Positive

definition sentiment_category_of :: "pyfloat \<Rightarrow> sentiment_label option" where
  "sentiment_category_of score =
     pd_cut [NInf, Fin (- 2), Fin 0, Fin 2, PInf]
       [Very_Negative, Negative, Positive, Very_Positive] score"

record cleaned =
  date :: int
  sentiment_score :: pyfloat
  V2Themes :: "string option"
  sentiment_category :: "sentiment_label option"

text \<open>
  \<^verbatim>\<open>dropna(subset=['sentiment_score', 'date'])\<close> on the rows: a row goes when its
  date is NaT or its score NaN, and stays otherwise, also with an infinite score. Then the
  added column \<^verbatim>\<open>sentiment_category\<close>.
\<close>

definition dropna :: "(int option \<times> pyfloat \<times> string option) list \<Rightarrow> (int \<times> pyfloat \<times> string option) list" where
  "dropna rows =
     List.map_filter
       (\<lambda>(d, s, t). case d of
                      None \<Rightarrow> None
                    | Some day \<Rightarrow> (if s = NaN then None else Some (day, s, t)))
       rows"

definition add_columns :: "(int \<times> pyfloat \<times> string option) \<Rightarrow> cleaned" where
  "add_columns row =
     (case row of (day, s, t) \<Rightarrow>
        \<lparr>date = day, sentiment_score = s, V2Themes = t,
         sentiment_category = sentiment_category_of s\<rparr>)"

text \<open>
  The date column of a frame without rows was assigned from an empty list and is not of
  a datetime dtype: \<^verbatim>\<open>.dt.year\<close> raises AttributeError on it.
\<close>

definition clean_and_preprocess_data ::
  "(int \<Rightarrow> int option) \<Rightarrow> (string \<Rightarrow> pyfloat option) \<Rightarrow> raw_frame \<Rightarrow> py_error + cleaned list" where
  "clean_and_preprocess_data to_datetime py_float df =
     (let dates = parse_date_column to_datetime df
      in case series_apply (extract_sentiment py_float) (V2Tone_col df) of
           Inl e \<Rightarrow> Inl e
         | Inr scores \<Rightarrow>
             (if dates = [] then Inl AttributeError
              else Inr (map add_columns (dropna (zip dates (zip scores (V2Themes_col df)))))))"

subsection \<open>Series statistics\<close>

text \<open>
  \<^verbatim>\<open>Series.min\<close> and \<^verbatim>\<open>Series.max\<close> of a date column (NaT on an empty one),
  and \<^verbatim>\<open>Timestamp.strftime\<close>, which raises ValueError on NaT.
\<close>

definition series_min :: "int list \<Rightarrow> int option" where
  "series_min xs = (case xs of [] \<Rightarrow> None | x # rest \<Rightarrow> Some (fold min rest x))"

definition series_max :: "int list \<Rightarrow> int option" where
  "series_max xs = (case xs of [] \<Rightarrow> None | x # rest \<Rightarrow> Some (fold max rest x))"

definition strftime :: "int option \<Rightarrow> py_error + int" where
  "strftime d = (case d of None \<Rightarrow> Inl ValueError | Some day \<Rightarrow> Inr day)"

subsection \<open>Category totals and recommendations\<close>

text \<open>\<^verbatim>\<open>d.items()\<close> of a counts dict, in key order.\<close>

definition dict_items :: "counts \<Rightarrow> (category \<times> nat) list" where
  "dict_items d = map (\<lambda>cat. (cat, d cat)) declared_order"

text \<open>
  \<^verbatim>\<open>for category, count in categories.items(): category_totals[category] += count\<close>
\<close>

definition add_items :: "counts \<Rightarrow> (category \<times> nat) list \<Rightarrow> counts" where
  "add_items category_totals its =
     foldl (\<lambda>totals item. totals(fst item := totals (fst item) + snd item)) category_totals its"

text \<open>
  The EDA pass (\<^verbatim>\<open>perform_eda\<close>) first collects the per-row dicts in
  \<^verbatim>\<open>theme_categories_list\<close> and sums them afterwards; the summary pass
  (\<^verbatim>\<open>generate_executive_summary\<close>) sums row by row.
\<close>

definition eda_category_totals :: "string option list \<Rightarrow> counts" where
  "eda_category_totals themes_column =
     (let theme_categories_list =
            map (\<lambda>themes_str. categorize_esg_themes (extract_themes themes_str)) themes_column
      in foldl (\<lambda>category_totals categories. add_items category_totals (dict_items categories))
           zero_counts theme_categories_list)"

definition summary_category_totals :: "string option list \<Rightarrow> counts" where
  "summary_category_totals themes_column =
     foldl (\<lambda>category_totals themes_str.
              add_items category_totals
                (dict_items (categorize_esg_themes (extract_themes themes_str))))
       zero_counts themes_column"

text \<open>
  \<^verbatim>\<open>sorted(category_totals.items(), key=lambda x: x[1], reverse=True)\<close>: a stable
  sort, largest count first.
\<close>

definition sorted_categories :: "counts \<Rightarrow> (category \<times> nat) list" where
  "sorted_categories category_totals =
     sort_key (\<lambda>item. - int (snd item)) (dict_items category_totals)"

text \<open>
  One \<^verbatim>\<open>if 'X' in dict(sorted_categories) and dict(sorted_categories)['X'] > 0\<close>
  with its block, and the four of them in the order of the source: Governance (block 1),
  Economic (2), Social (3), Environmental (4).
\<close>

definition recommendation_if :: "(category \<times> nat) list \<Rightarrow> category \<Rightarrow> category list" where
  "recommendation_if sorted_cats cat =
     (case map_of sorted_cats cat of
        None \<Rightarrow> []
      | Some n \<Rightarrow> (if n > 0 then [cat] else []))"

definition recommendations :: "(category \<times> nat) list \<Rightarrow> category list" where
  "recommendations sorted_cats =
     recommendation_if sorted_cats Governance @ recommendation_if sorted_cats Economic @
     recommendation_if sorted_cats Social @ recommendation_if sorted_cats Environmental"

subsection \<open>Executive summary\<close>

datatype trend = improving | declining

text \<open>
  What the summary logs, in order: the banner, the warning of the empty case, the key
  metrics (count, first and last date, mean, negative and positive percentage), the trend
  (recent mean, overall mean, direction, magnitude), the recommendations' heading and one
  event per recommendation block.
\<close>

datatype log_event =
    Banner
  | NoDataWarning
  | KeyMetrics nat int int pyfloat pyfloat pyfloat
  | TrendAnalysis pyfloat pyfloat trend pyfloat
  | RecommendationsHeading
  | Recommendation category

definition recent_30d :: "int \<Rightarrow> cleaned list \<Rightarrow> cleaned list" where
  "recent_30d max_date df_clean = filter (\<lambda>r. date r \<ge> max_date - 30) df_clean"

definition recent_sentiment :: "np_ops \<Rightarrow> int \<Rightarrow> cleaned list \<Rightarrow> pyfloat" where
  "recent_sentiment ops max_date df_clean =
     (if recent_30d max_date df_clean \<noteq> []
      then np_mean ops (map sentiment_score (recent_30d max_date df_clean))
      else np_mean ops (map sentiment_score df_clean))"

definition trend_direction :: "pyfloat \<Rightarrow> pyfloat \<Rightarrow> trend" where
  "trend_direction recent avg = (if fl_gt recent avg then improving else declining)"

definition trend_magnitude :: "np_ops \<Rightarrow> pyfloat \<Rightarrow> pyfloat \<Rightarrow> pyfloat" where
  "trend_magnitude ops recent avg = fl_abs (np_sub ops recent avg)"

text \<open>The statements after the emptiness test.\<close>

definition summary_body :: "np_ops \<Rightarrow> cleaned list \<Rightarrow> py_error + log_event list" where
  "summary_body ops df_clean =
     (let total_articles = length df_clean;
          avg_sentiment = np_mean ops (map sentiment_score df_clean);
          negative_pct =
            np_percent ops (length (filter (\<lambda>r. fl_lt (sentiment_score r) (Fin 0)) df_clean))
              total_articles;
          positive_pct =
            np_percent ops (length (filter (\<lambda>r. fl_gt (sentiment_score r) (Fin 0)) df_clean))
              total_articles;
          min_date = series_min (map date df_clean);
          max_date = series_max (map date df_clean)
      in case strftime min_date of
           Inl e \<Rightarrow> Inl e
         | Inr first_day \<Rightarrow>
        (case strftime max_date of
           Inl e \<Rightarrow> Inl e
         | Inr last_day \<Rightarrow>
             (let recent = recent_sentiment ops last_day df_clean;
                  category_totals = summary_category_totals (map V2Themes df_clean)
              in Inr ([KeyMetrics total_articles first_day last_day avg_sentiment negative_pct positive_pct,
                       TrendAnalysis recent avg_sentiment (trend_direction recent avg_sentiment)
                         (trend_magnitude ops recent avg_sentiment),
                       RecommendationsHeading]
                      @ map Recommendation (recommendations (sorted_categories category_totals))))))"

definition generate_executive_summary :: "np_ops \<Rightarrow> cleaned list \<Rightarrow> py_error + log_event list" where
  "generate_executive_summary ops df_clean =
     (if df_clean = [] then Inr [Banner, NoDataWarning]
      else (case summary_body ops df_clean of
              Inl e \<Rightarrow> Inl e
            | Inr events \<Rightarrow> Inr (Banner # events)))"

subsection \<open>Export with rolling averages\<close>






subsection \<open>Sample data\<close>

text \<open>
  Small cleaned datasets on which the theorems below are run: two rows forty days apart,
  two rows twenty days apart, a row whose themes fall into three categories, a row with
  the single theme LEGISLATION, and nine rows, one a day, out of date order.
\<close>

definition two_rows :: "cleaned list" where
  "two_rows =
     [\<lparr>date = 19905, sentiment_score = Fin 1, V2Themes = None,
       sentiment_category = Some Positive\<rparr>,
      \<lparr>date = 19945, sentiment_score = Fin 3, V2Themes = None,
       sentiment_category = Some Very_Positive\<rparr>]"







section \<open>Theorems\<close>

subsection \<open>Categorisation\<close>

lemma scan_categories_first_match:
  "scan_categories tbl theme cnt cat =
     cnt cat +
     (if map_option fst (find (\<lambda>entry. list_ex (\<lambda>keyword. py_in keyword theme) (snd entry)) tbl)
         = Some cat
      then 1 else 0)"
  by (induction tbl theme cnt rule: scan_categories.induct) auto

lemma categorize_loop_count:
  "categorize_loop themes cnt cat = cnt cat + length (tokens_of cat themes)"
proof (induction themes arbitrary: cnt)
  case Nil
  show ?case by (simp add: tokens_of_def)
next
  case (Cons theme themes)
  show ?case
    by (simp add: Cons.IH scan_categories_first_match first_match_def tokens_of_def)
qed

lemma tokens_of_total:
  "length (tokens_of Environmental themes) + length (tokens_of Social themes)
     + length (tokens_of Governance themes) + length (tokens_of Economic themes)
     + length (tokens_of Technology themes) + length (tokens_of Political themes)
   \<le> length themes"
proof (induction themes)
  case Nil
  show ?case by (simp add: tokens_of_def)
next
  case (Cons theme themes)
  show ?case
  proof (cases "first_match theme")
    case None
    with Cons show ?thesis by (simp add: tokens_of_def)
  next
    case (Some c)
    with Cons show ?thesis by (cases c) (simp_all add: tokens_of_def)
  qed
qed

lemma first_match_LEGISLATION: "first_match ''LEGISLATION'' = Some Governance"
  by (simp add: first_match_def esg_categories_map_def)

lemma starts_with_iff: "starts_with s k = (\<exists>rest. s = k @ rest)"
  by (induction s k rule: starts_with.induct) auto

lemma py_in_iff: "py_in k s = (\<exists>before after. s = before @ k @ after)"
proof (induction s)
  case Nil
  show ?case by auto
next
  case (Cons c cs)
  show ?case
  proof
    assume "py_in k (c # cs)"
    then consider "starts_with (c # cs) k" | "py_in k cs" by auto
    then show "\<exists>before after. c # cs = before @ k @ after"
    proof cases
      case 1
      then obtain rest where "c # cs = k @ rest" by (auto simp: starts_with_iff)
      then have "c # cs = [] @ k @ rest" by simp
      then show ?thesis by blast
    next
      case 2
      then obtain b a where "cs = b @ k @ a" using Cons.IH by auto
      then have "c # cs = (c # b) @ k @ a" by simp
      then show ?thesis by blast
    qed
  next
    assume "\<exists>before after. c # cs = before @ k @ after"
    then obtain b a where ba: "c # cs = b @ k @ a" by auto
    show "py_in k (c # cs)"
    proof (cases b)
      case Nil
      with ba have "starts_with (c # cs) k" by (auto simp: starts_with_iff)
      then show ?thesis by simp
    next
      case (Cons b0 bs)
      with ba have "cs = bs @ k @ a" by simp
      then have "py_in k cs" using Cons.IH by blast
      then show ?thesis by simp
    qed
  qed
qed

text \<open>
  Claim C4. For every sequence of theme tokens, each token counts for at most one
  category: a category's counter is the number of tokens whose first matching category,
  in the declared order Environmental, Social, Governance, Economic, Technology,
  Political, is that category, and a token that matches none is counted nowhere. The
  single token LEGISLATION gives Governance 1 and every other counter 0, and the six
  counters together never exceed the number of tokens.
\<close>

theorem categorize_first_match_wins:
  "categorize_esg_themes themes cat = length (tokens_of cat themes)
   \<and> map fst esg_categories_map = declared_order
   \<and> categorize_esg_themes [''LEGISLATION''] = zero_counts(Governance := 1)
   \<and> sum_list (map (categorize_esg_themes themes) declared_order) \<le> length themes"
proof -
  have count: "categorize_esg_themes ts c = length (tokens_of c ts)" for ts c
    by (simp add: categorize_esg_themes_def categorize_loop_count zero_counts_def)
  have order: "map fst esg_categories_map = declared_order"
    by (simp add: esg_categories_map_def declared_order_def)
  have legis: "categorize_esg_themes [''LEGISLATION''] = zero_counts(Governance := 1)"
    by (rule ext) (simp add: count tokens_of_def first_match_LEGISLATION zero_counts_def)
  have total: "sum_list (map (categorize_esg_themes themes) declared_order) \<le> length themes"
    using tokens_of_total [of themes] by (simp add: declared_order_def count)
  from count order legis total show ?thesis by blast
qed

subsection \<open>Tone parsing\<close>

lemma hd_split_on: "split_on sep s = takeWhile (\<lambda>c. c \<noteq> sep) s # tl (split_on sep s)"
  by (induction s) (auto split: list.splits)

lemma item0_split_on: "item0 (split_on CHR '','' s) = Inr (first_field s)"
  by (subst hd_split_on) (simp add: item0_def first_field_def)

lemma try_first_field_eq:
  "try_first_field py_float s =
     (if first_field s = [] then Inr NaN
      else (case py_float (first_field s) of None \<Rightarrow> Inl ValueError | Some v \<Rightarrow> Inr v))"
  by (simp add: try_first_field_def item0_split_on)

lemma extract_sentiment_PyStr:
  "extract_sentiment py_float (PyStr s) =
     Inr (if first_field s = [] then NaN
          else (case py_float (first_field s) of None \<Rightarrow> NaN | Some v \<Rightarrow> v))"
  by (simp add: extract_sentiment_def pd_isna_def try_first_field_eq split: option.splits)

lemma first_field_idem: "first_field (first_field s @ CHR '','' # rest) = first_field s"
  by (simp add: first_field_def takeWhile_append1 takeWhile_append2 takeWhile_tail)

lemma extract_sentiment_returns: "\<exists>v. extract_sentiment py_float tone_str = Inr v"
proof (cases tone_str)
  case PyNone
  then show ?thesis by (simp add: extract_sentiment_def pd_isna_def)
next
  case (PyFloat y)
  then show ?thesis by (cases y) (simp_all add: extract_sentiment_def pd_isna_def)
next
  case (PyStr t)
  then show ?thesis by (simp add: extract_sentiment_PyStr)
qed

text \<open>
  Claim C3. \<open>extract_sentiment\<close> returns for every input and never raises. A null
  input gives NaN (Missing); a numeric input is returned as it is; a text gives NaN
  exactly when its first comma-separated field is empty or not numeric, and otherwise the
  value \<^verbatim>\<open>float\<close> makes of the first field, whatever follows the first comma.
\<close>

theorem extract_sentiment_never_raises:
  "(\<exists>v. extract_sentiment py_float tone_str = Inr v)
   \<and> extract_sentiment py_float PyNone = Inr NaN
   \<and> extract_sentiment py_float (PyFloat x) = Inr x
   \<and> (extract_sentiment py_float (PyStr s) = Inr NaN)
       = (first_field s = [] \<or> \<not> numeric py_float (first_field s))
   \<and> extract_sentiment py_float (PyStr s)
       = Inr (if first_field s = [] then NaN
              else (case py_float (first_field s) of None \<Rightarrow> NaN | Some v \<Rightarrow> v))
   \<and> extract_sentiment py_float (PyStr (first_field s @ CHR '','' # rest))
       = extract_sentiment py_float (PyStr s)"
proof -
  have total: "\<exists>v. extract_sentiment py_float tone_str = Inr v"
    by (rule extract_sentiment_returns)
  have none: "extract_sentiment py_float PyNone = Inr NaN"
    by (simp add: extract_sentiment_def pd_isna_def)
  have num: "extract_sentiment py_float (PyFloat x) = Inr x"
    by (cases x) (simp_all add: extract_sentiment_def pd_isna_def)
  have missing: "(extract_sentiment py_float (PyStr s) = Inr NaN)
       = (first_field s = [] \<or> \<not> numeric py_float (first_field s))"
    by (simp add: extract_sentiment_PyStr numeric_def split: option.splits pyfloat.splits)
  have indep: "extract_sentiment py_float (PyStr (first_field s @ CHR '','' # rest))
       = extract_sentiment py_float (PyStr s)"
    by (simp only: extract_sentiment_PyStr first_field_idem)
  from total none num missing indep extract_sentiment_PyStr [of py_float s]
  show ?thesis by blast
qed

subsection \<open>Sentiment categories of cleaned records\<close>

lemma sentiment_category_of_Fin:
  "sentiment_category_of (Fin x) =
     Some (if x \<le> - 2 then Very_Negative else if x \<le> 0 then Negative
           else if x \<le> 2 then Positive else Very_Positive)"
  by (simp add: sentiment_category_of_def pd_cut_def)

lemma sentiment_category_of_PInf: "sentiment_category_of PInf = Some Very_Positive"
  by (simp add: sentiment_category_of_def pd_cut_def)

lemma sentiment_category_of_NInf: "sentiment_category_of NInf = None"
  by (simp add: sentiment_category_of_def pd_cut_def)

lemma sentiment_category_of_eq:
  assumes "s \<noteq> NaN" and "s \<noteq> NInf"
  shows "sentiment_category_of s =
     Some (if fl_le s (Fin (- 2)) then Very_Negative
           else if fl_le s (Fin 0) then Negative
           else if fl_le s (Fin 2) then Positive else Very_Positive)"
proof (cases s)
  case (Fin x)
  then show ?thesis by (simp add: sentiment_category_of_Fin fl_le_def)
next
  case PInf
  then show ?thesis by (simp add: sentiment_category_of_PInf fl_le_def)
qed (use assms in simp_all)

lemma dropna_no_NaN: "(d, s, t) \<in> set (dropna rows) \<Longrightarrow> s \<noteq> NaN"
  by (auto simp: dropna_def List.map_filter_def split: option.splits if_splits)

lemma cleaned_rows_shape:
  assumes "clean_and_preprocess_data to_datetime py_float df = Inr rows" and "r \<in> set rows"
  shows "\<exists>d s t. r = add_columns (d, s, t) \<and> s \<noteq> NaN"
proof -
  from assms(1) obtain triples where rows: "rows = map add_columns (dropna triples)"
    by (auto simp: clean_and_preprocess_data_def Let_def split: sum.splits if_splits)
  with assms(2) obtain row where row: "row \<in> set (dropna triples)" "r = add_columns row"
    by auto
  obtain d s t where "row = (d, s, t)" by (cases row) auto
  with row dropna_no_NaN [of d s t triples] show ?thesis by blast
qed

lemma clean_numeric_row:
  "clean_and_preprocess_data to_datetime py_float
     \<lparr>SQLDATE = Absent, V2Themes_col = [None], V2Tone_col = [PyFloat s]\<rparr>
   = Inr (if s = NaN then []
          else [\<lparr>date = 19905, sentiment_score = s, V2Themes = None,
                 sentiment_category = sentiment_category_of s\<rparr>])"
  by (cases s)
     (simp_all add: clean_and_preprocess_data_def parse_date_column_def try_parse_dates_def
      sqldate_is_yyyymmdd_def sequential_dates_def frame_len_def base_date_def
      extract_sentiment_def pd_isna_def dropna_def add_columns_def)

lemma clean_no_rows:
  assumes "wf_frame df" and "frame_len df = 0"
  shows "clean_and_preprocess_data to_datetime py_float df = Inl AttributeError"
proof -
  have "parse_date_column to_datetime df = []"
    using assms
    by (simp add: wf_frame_def parse_date_column_def try_parse_dates_def
        sqldate_is_yyyymmdd_def sequential_dates_def item0_def
        split: sqldate_column.splits list.splits)
  moreover have "V2Tone_col df = []" using assms(2) by (simp add: frame_len_def)
  ultimately show ?thesis by (simp add: clean_and_preprocess_data_def)
qed

lemma minus_infinity_row_unlabelled:
  "clean_and_preprocess_data to_datetime py_float
     \<lparr>SQLDATE = Absent, V2Themes_col = [None], V2Tone_col = [PyFloat NInf]\<rparr>
   = Inr [\<lparr>date = 19905, sentiment_score = NInf, V2Themes = None,
           sentiment_category = None\<rparr>]"
  by (simp add: clean_numeric_row sentiment_category_of_NInf)

text \<open>
  Claim C1, as amended. Every cleaned record whose score is not negative infinity carries
  the category that \<^verbatim>\<open>pd.cut\<close> with right-closed bins gives its score: a score
  of at most -2 is Very Negative, a score above -2 and at most 0 is Negative, a score
  above 0 and at most 2 is Positive, and a score above 2 is Very Positive. A score of
  exactly -2 is Very Negative and a score of exactly 2 is Positive. (A score of negative
  infinity stays in the cleaned data without a category, see
  \<open>minus_infinity_row_unlabelled\<close>.)
\<close>

theorem cleaned_sentiment_category:
  assumes "clean_and_preprocess_data to_datetime py_float df = Inr rows" and "r \<in> set rows"
    and "sentiment_score r \<noteq> NInf"
  shows "sentiment_category r =
     Some (if fl_le (sentiment_score r) (Fin (- 2)) then Very_Negative
           else if fl_le (sentiment_score r) (Fin 0) then Negative
           else if fl_le (sentiment_score r) (Fin 2) then Positive else Very_Positive)"
proof -
  obtain d s t where r: "r = add_columns (d, s, t)" and s: "s \<noteq> NaN"
    using cleaned_rows_shape [OF assms(1,2)] by blast
  from r have sc: "sentiment_score r = s" "sentiment_category r = sentiment_category_of s"
    by (simp_all add: add_columns_def)
  with assms(3) have "s \<noteq> NInf" by simp
  from sentiment_category_of_eq [OF s this] sc show ?thesis by simp
qed

text \<open>The cleaned record of a row whose tone is the number 2.\<close>

theorem cleaned_sentiment_category_witness:
  "clean_and_preprocess_data (\<lambda>i. None) (\<lambda>s. None)
     \<lparr>SQLDATE = Absent, V2Themes_col = [None], V2Tone_col = [PyFloat (Fin 2)]\<rparr>
   = Inr [\<lparr>date = 19905, sentiment_score = Fin 2, V2Themes = None,
           sentiment_category = Some Positive\<rparr>]
   \<and> sentiment_category \<lparr>date = 19905, sentiment_score = Fin 2, V2Themes = None,
           sentiment_category = Some Positive\<rparr> = Some Positive
   \<and> Fin 2 \<noteq> NInf"
proof -
  let ?df = "\<lparr>SQLDATE = Absent, V2Themes_col = [None], V2Tone_col = [PyFloat (Fin 2)]\<rparr>"
  let ?r = "\<lparr>date = 19905, sentiment_score = Fin 2, V2Themes = None,
           sentiment_category = Some Positive\<rparr>"
  have run: "clean_and_preprocess_data (\<lambda>i. None) (\<lambda>s. None) ?df = Inr [?r]"
    by (simp add: clean_numeric_row sentiment_category_of_Fin)
  have mem: "?r \<in> set [?r]" by simp
  have fin: "sentiment_score ?r \<noteq> NInf" by simp
  from cleaned_sentiment_category [OF run mem fin] run show ?thesis
    by (simp add: fl_le_def)
qed

text \<open>
  The claim as first stated put a score of exactly -2 into Negative; the cleaned record of
  a row whose tone is the number -2 is Very Negative.
\<close>

theorem score_minus_two_is_very_negative:
  "clean_and_preprocess_data (\<lambda>i. None) (\<lambda>s. None)
     \<lparr>SQLDATE = Absent, V2Themes_col = [None], V2Tone_col = [PyFloat (Fin (- 2))]\<rparr>
   = Inr [\<lparr>date = 19905, sentiment_score = Fin (- 2), V2Themes = None,
           sentiment_category = Some Very_Negative\<rparr>]
   \<and> sentiment_category_of (Fin (- 2)) \<noteq> Some Negative"
  by (simp add: clean_numeric_row sentiment_category_of_Fin)

subsection \<open>Date parsing in the record cleaner\<close>

text \<open>
  Which way the rows are dated, and the length of the text of an integer against the
  number of its digits: equal for a value that is not negative, one more for a negative
  one.
\<close>

lemma parse_date_column_eq:
  "parse_date_column to_datetime df =
     (case SQLDATE df of
        Int64 (x # xs) \<Rightarrow>
          (if length (str_int x) = 8 then map to_datetime (x # xs)
           else sequential_dates (frame_len df))
      | other \<Rightarrow> sequential_dates (frame_len df))"
  by (simp add: parse_date_column_def try_parse_dates_def sqldate_is_yyyymmdd_def item0_def
      split: sqldate_column.splits list.splits)

lemma str_int_nonnegative: "0 \<le> x \<Longrightarrow> length (str_int x) = digit_count x"
  by (simp add: str_int_def digit_count_def)

lemma str_int_negative: "x < 0 \<Longrightarrow> length (str_int x) = Suc (digit_count x)"
  by (simp add: str_int_def digit_count_def abs_if)

text \<open>
  Claim C10. The choice between parsing every row and dating the rows by position is
  meant to rest on the dtype of the SQLDATE column and on the first value having exactly 8
  digits. The code tests the length of the value's text, which counts a minus sign: on the
  int64 column \<open>-1234567, 20240101\<close>, whose first value has seven digits, the test holds
  and the rows are parsed (here with a stand-in for the parser that knows 20240101, day
  19723, and nothing else: the first row becomes NaT, the second 2024-01-01), where the
  claim dates them 2024-07-01 and 2024-07-02.
\<close>

theorem negative_first_sqldate_is_parsed:
  "sqldate_is_yyyymmdd
     \<lparr>SQLDATE = Int64 [- 1234567, 20240101], V2Themes_col = [None, None],
      V2Tone_col = [PyNone, PyNone]\<rparr> = Inr True
   \<and> digit_count (- 1234567) = 7
   \<and> parse_date_column (\<lambda>i. if i = 20240101 then Some 19723 else None)
     \<lparr>SQLDATE = Int64 [- 1234567, 20240101], V2Themes_col = [None, None],
      V2Tone_col = [PyNone, PyNone]\<rparr> = [None, Some 19723]
   \<and> sequential_dates 2 = [Some 19905, Some 19906]"
  by (simp add: parse_date_column_eq sqldate_is_yyyymmdd_def item0_def str_int_def
      digit_count_def nat_digits.simps sequential_dates_def base_date_def upt_rec)

subsection \<open>Executive summary\<close>

lemma summary_body_empty: "summary_body ops [] = Inl ValueError"
  by (simp add: summary_body_def series_min_def strftime_def)

text \<open>
  Claim C5. On an empty cleaned dataset the summary logs its banner and the warning that
  there is no data, and returns: no metric, no percentage, no trend and no recommendation
  is computed or logged, and nothing is raised. (The statements after the test would
  raise on an empty dataset, see \<open>summary_body_empty\<close>.)
\<close>

theorem empty_summary_is_no_data:
  "generate_executive_summary ops [] = Inr [Banner, NoDataWarning]"
  by (simp add: generate_executive_summary_def)

text \<open>
  Claim C7. For every theme column the per-category totals of the EDA pass and of the
  summary pass are equal, category by category.
\<close>

theorem eda_and_summary_totals_agree:
  "eda_category_totals themes_column cat = summary_category_totals themes_column cat"
  by (simp add: eda_category_totals_def summary_category_totals_def foldl_map)

lemma series_max_Max:
  assumes "xs \<noteq> []"
  shows "series_max xs = Some (Max (set xs))"
proof (cases xs)
  case Nil
  with assms show ?thesis by simp
next
  case (Cons a rest)
  then show ?thesis using Max.set_eq_fold [of a rest] by (simp add: series_max_def)
qed


lemma max_date_row:
  assumes "df \<noteq> []"
  shows "\<exists>r \<in> set df. date r = Max (set (map date df))"
proof -
  have "Max (set (map date df)) \<in> set (map date df)"
    using assms by (intro Max_in) auto
  then show ?thesis by auto
qed

lemma max_date_upper: "r \<in> set df \<Longrightarrow> date r \<le> Max (date ` set df)"
  by (rule Max_ge) auto

text \<open>
  Claim C9. In a non-empty cleaned dataset the rows of the last 30 days, counted back from
  the latest date, are not empty: they contain a row of the latest date itself. So the
  recent mean is the mean of those rows, never the substituted overall mean.
\<close>

theorem recent_window_not_empty:
  assumes "df \<noteq> []"
  shows "\<exists>m. series_max (map date df) = Some m
          \<and> (\<forall>r \<in> set df. date r \<le> m)
          \<and> recent_30d m df \<noteq> []
          \<and> m \<in> set (map date (recent_30d m df))
          \<and> recent_sentiment ops m df = np_mean ops (map sentiment_score (recent_30d m df))"
proof -
  let ?m = "Max (set (map date df))"
  have m: "series_max (map date df) = Some ?m"
    using assms by (simp add: series_max_Max)
  obtain r where r: "r \<in> set df" "date r = ?m"
    using max_date_row [OF assms] by blast
  then have in_recent: "r \<in> set (recent_30d ?m df)"
    by (simp add: recent_30d_def)
  then have ne: "recent_30d ?m df \<noteq> []" by auto
  have "?m \<in> set (map date (recent_30d ?m df))"
    using in_recent r(2) by force
  moreover have "\<forall>r \<in> set df. date r \<le> ?m" by (simp add: max_date_upper)
  ultimately show ?thesis using m ne by (auto simp: recent_sentiment_def)
qed










subsection \<open>Rolling averages of the export\<close>

















subsection \<open>Runs on sample data\<close>







text \<open>The recent rows of \<open>two_rows\<close>: the row of the latest date.\<close>

theorem recent_window_not_empty_witness:
  "two_rows \<noteq> []
   \<and> series_max (map date two_rows) = Some 19945
   \<and> recent_30d 19945 two_rows
       = [\<lparr>date = 19945, sentiment_score = Fin 3, V2Themes = None,
           sentiment_category = Some Very_Positive\<rparr>]
   \<and> (\<exists>m. series_max (map date two_rows) = Some m
          \<and> (\<forall>r \<in> set two_rows. date r \<le> m)
          \<and> recent_30d m two_rows \<noteq> []
          \<and> m \<in> set (map date (recent_30d m two_rows))
          \<and> recent_sentiment exact_ops m two_rows
              = np_mean exact_ops (map sentiment_score (recent_30d m two_rows)))"
proof -
  have ne: "two_rows \<noteq> []" by (simp add: two_rows_def)
  have mx: "series_max (map date two_rows) = Some 19945"
    by (simp add: two_rows_def series_max_def)
  have rc: "recent_30d 19945 two_rows
       = [\<lparr>date = 19945, sentiment_score = Fin 3, V2Themes = None,
           sentiment_category = Some Very_Positive\<rparr>]"
    by (simp add: two_rows_def recent_30d_def)
  from recent_window_not_empty [OF ne, of exact_ops] ne mx rc show ?thesis by blast
qed






text \<open>
  The tone parser with a stand-in for \<^verbatim>\<open>float\<close> that accepts the text
  \<^verbatim>\<open>1.5\<close> only.
\<close>

theorem extract_sentiment_never_raises_witness:
  "extract_sentiment (\<lambda>s. if s = ''1.5'' then Some (Fin (3 / 2)) else None)
     (PyStr ''1.5,2,3,4,5,6'') = Inr (Fin (3 / 2))
   \<and> extract_sentiment (\<lambda>s. if s = ''1.5'' then Some (Fin (3 / 2)) else None)
     (PyStr ''abc,1,2,3,4,5'') = Inr NaN
   \<and> extract_sentiment (\<lambda>s. if s = ''1.5'' then Some (Fin (3 / 2)) else None)
     (PyStr '''') = Inr NaN
   \<and> extract_sentiment (\<lambda>s. if s = ''1.5'' then Some (Fin (3 / 2)) else None)
     PyNone = Inr NaN"
proof -
  let ?f = "\<lambda>s. if s = ''1.5'' then Some (Fin (3 / 2)) else None"
  have a: "first_field ''1.5,2,3,4,5,6'' = ''1.5''" by (simp add: first_field_def)
  have b: "first_field ''abc,1,2,3,4,5'' = ''abc''" by (simp add: first_field_def)
  have c: "first_field '''' = ''''" by (simp add: first_field_def)
  from extract_sentiment_never_raises [of ?f PyNone "Fin 0" "''1.5,2,3,4,5,6''" "[]"]
  have 1: "extract_sentiment ?f (PyStr ''1.5,2,3,4,5,6'') = Inr (Fin (3 / 2))"
    and 4: "extract_sentiment ?f PyNone = Inr NaN"
    by (simp_all add: a)
  from extract_sentiment_never_raises [of ?f PyNone "Fin 0" "''abc,1,2,3,4,5''" "[]"]
  have 2: "extract_sentiment ?f (PyStr ''abc,1,2,3,4,5'') = Inr NaN"
    by (simp add: b)
  from extract_sentiment_never_raises [of ?f PyNone "Fin 0" "''''" "[]"]
  have 3: "extract_sentiment ?f (PyStr '''') = Inr NaN"
    by (simp add: c)
  from 1 2 3 4 show ?thesis by blast
qed

end
